theory Spec2Isabelle
  imports Main "HOL-Library.Sublist" "HOL-Library.AList"
begin

section \<open>Strings as Python sees them\<close>

text \<open>
  Python strings are modelled as \<^typ>\<open>string\<close>, one \<^typ>\<open>char\<close> per code point, for
  ASCII text: the case mappings and character classes below are the ASCII fragment of
  \<^verbatim>\<open>str.lower\<close>, \<^verbatim>\<open>str.isalpha\<close>, \<^verbatim>\<open>str.isspace\<close> and the regular expression class
  \<^verbatim>\<open>\w\<close>. A character outside ASCII is treated as an uncased symbol.
  The test \<^verbatim>\<open>kw in text\<close> on strings is \<^term>\<open>sublist kw text\<close>.
\<close>

definition is_upper :: "char \<Rightarrow> bool" where
  "is_upper c \<longleftrightarrow> c \<in> set ''ABCDEFGHIJKLMNOPQRSTUVWXYZ''"

definition is_lower :: "char \<Rightarrow> bool" where
  "is_lower c \<longleftrightarrow> c \<in> set ''abcdefghijklmnopqrstuvwxyz''"

definition is_digit :: "char \<Rightarrow> bool" where
  "is_digit c \<longleftrightarrow> c \<in> set ''0123456789''"

definition is_alpha :: "char \<Rightarrow> bool" where
  "is_alpha c \<longleftrightarrow> is_upper c \<or> is_lower c"

definition is_word :: "char \<Rightarrow> bool" where
  \<comment> \<open>the class \<^verbatim>\<open>\w\<close>\<close>
  "is_word c \<longleftrightarrow> is_alpha c \<or> is_digit c \<or> c = CHR ''_''"

definition is_space :: "char \<Rightarrow> bool" where
  \<comment> \<open>\<^verbatim>\<open>str.isspace\<close>: tab, line feed, vertical tab, form feed, carriage return,
      the four separators 0x1C..0x1F and the blank\<close>
  "is_space c \<longleftrightarrow> c \<in> set [CHR 0x09, CHR 0x0A, CHR 0x0B, CHR 0x0C, CHR 0x0D,
                             CHR 0x1C, CHR 0x1D, CHR 0x1E, CHR 0x1F, CHR 0x20]"

definition lower_char :: "char \<Rightarrow> char" where
  "lower_char c =
     (case map_of (zip ''ABCDEFGHIJKLMNOPQRSTUVWXYZ'' ''abcdefghijklmnopqrstuvwxyz'') c of
        Some l \<Rightarrow> l | None \<Rightarrow> c)"

definition upper_char :: "char \<Rightarrow> char" where
  "upper_char c =
     (case map_of (zip ''abcdefghijklmnopqrstuvwxyz'' ''ABCDEFGHIJKLMNOPQRSTUVWXYZ'') c of
        Some u \<Rightarrow> u | None \<Rightarrow> c)"

definition lower :: "string \<Rightarrow> string" where
  \<comment> \<open>\<^verbatim>\<open>str.lower\<close>\<close>
  "lower s = map lower_char s"

definition strip :: "string \<Rightarrow> string" where
  \<comment> \<open>\<^verbatim>\<open>str.strip\<close> with no argument\<close>
  "strip s = rev (dropWhile is_space (rev (dropWhile is_space s)))"

fun split_from :: "string \<Rightarrow> string \<Rightarrow> string list" where
  \<comment> \<open>the first argument is the word being read, reversed\<close>
  "split_from cur [] = (if cur = [] then [] else [rev cur])"
| "split_from cur (c # cs) =
     (if is_space c then (if cur = [] then split_from [] cs else rev cur # split_from [] cs)
      else split_from (c # cur) cs)"

definition split :: "string \<Rightarrow> string list" where
  \<comment> \<open>\<^verbatim>\<open>str.split\<close> with no argument: the maximal runs of non-blank characters\<close>
  "split s = split_from [] s"

definition isalpha :: "string \<Rightarrow> bool" where
  \<comment> \<open>\<^verbatim>\<open>str.isalpha\<close>: not empty, letters only\<close>
  "isalpha s \<longleftrightarrow> s \<noteq> [] \<and> list_all is_alpha s"

fun title_from :: "bool \<Rightarrow> string \<Rightarrow> string" where
  \<comment> \<open>the flag says whether the character before was a letter\<close>
  "title_from prev [] = []"
| "title_from prev (c # cs) =
     (if prev then lower_char c else upper_char c) # title_from (is_alpha c) cs"

definition title :: "string \<Rightarrow> string" where
  \<comment> \<open>\<^verbatim>\<open>str.title\<close>: a letter after a non-letter in upper case, every other letter in lower case\<close>
  "title s = title_from False s"

fun join :: "string \<Rightarrow> string list \<Rightarrow> string" where
  \<comment> \<open>\<^verbatim>\<open>sep.join(xs)\<close>\<close>
  "join sep [] = []"
| "join sep [x] = x"
| "join sep (x # y # ys) = x @ sep @ join sep (y # ys)"

fun re_search_word :: "string \<Rightarrow> string \<Rightarrow> string option" where
  \<comment> \<open>\<^verbatim>\<open>re.search(lit + r"(\w+)", text)\<close> and then \<^verbatim>\<open>group(1)\<close>: the leftmost
      position where the literal is followed by a word character, and the longest run of word
      characters from there; \<^term>\<open>None\<close> when there is no match\<close>
  "re_search_word lit [] = None"
| "re_search_word lit (c # cs) =
     (if prefix lit (c # cs) \<and> takeWhile is_word (drop (length lit) (c # cs)) \<noteq> []
      then Some (takeWhile is_word (drop (length lit) (c # cs)))
      else re_search_word lit cs)"

section \<open>Intent classification\<close>

datatype intent =
  IGreeting | IBooking | IAvailability | ICancel | IUpdate | IShowBookings | IHelp
  | IConfirm | IDeny | IUnknown

definition GOODBYE_KEYWORDS :: "string list" where
  "GOODBYE_KEYWORDS = [''bye'', ''goodbye'', ''see you'', ''exit'', ''quit'']"

definition intents :: "(intent \<times> string list) list" where
  \<comment> \<open>the dictionary of \<^verbatim>\<open>IntentClassifier.__init__\<close>, in insertion order\<close>
  "intents =
     [(IGreeting, [''hi'', ''hello'', ''hey'', ''good morning'', ''good afternoon'']),
      (IBooking, [''book'', ''appointment'', ''schedule'', ''reserve'']),
      (IAvailability, [''available'', ''slots'', ''when'', ''time'']),
      (ICancel, [''cancel'', ''remove'', ''delete'']),
      (IUpdate, [''change'', ''update'', ''reschedule'']),
      (IShowBookings, [''show my bookings'', ''my bookings'', ''list bookings'', ''current bookings'']),
      (IHelp, [''help'', ''assist'', ''what can you do'']),
      (IConfirm, [''yes'', ''confirm'', ''ok'', ''sure'', ''correct'']),
      (IDeny, [''no'', ''cancel'', ''wrong'', ''incorrect''])]"

definition any_in :: "string list \<Rightarrow> string \<Rightarrow> bool" where
  \<comment> \<open>\<^verbatim>\<open>any(keyword in text for keyword in keywords)\<close>\<close>
  "any_in keywords text \<longleftrightarrow> list_ex (\<lambda>keyword. sublist keyword text) keywords"

fun classify_loop :: "(intent \<times> string list) list \<Rightarrow> string \<Rightarrow> intent" where
  "classify_loop [] text = IUnknown"
| "classify_loop ((intent, keywords) # rest) text =
     (if any_in keywords text then intent else classify_loop rest text)"

definition classify :: "string \<Rightarrow> intent" where
  "classify text = classify_loop intents (strip (lower text))"

section \<open>Name extraction\<close>

fun first_match :: "string list \<Rightarrow> string \<Rightarrow> string option" where
  \<comment> \<open>the loop over the patterns: the first pattern that matches decides\<close>
  "first_match [] text = None"
| "first_match (lit # lits) text =
     (case re_search_word lit text of
        Some g \<Rightarrow> Some g
      | None \<Rightarrow> first_match lits text)"

definition name_patterns :: "string list" where
  \<comment> \<open>the literal part of each pattern; every pattern ends in \<^verbatim>\<open>(\w+)\<close>\<close>
  "name_patterns = [''my name is '', ''i'm '', ''i am '', ''call me '']"

definition extract_name :: "string \<Rightarrow> string option" where
  "extract_name text0 =
     (let text = strip text0 in
      case first_match name_patterns (lower text) of
        Some g \<Rightarrow> Some (title g)
      | None \<Rightarrow>
          (let words = split text in
           if length words = 1 \<and> isalpha (words ! 0) then Some (title (words ! 0))
           else if length words = 2 \<and> list_all isalpha words
           then Some (join '' '' (map title words))
           else None))"

section \<open>Data model\<close>

text \<open>
  Identifiers are the texts of \<^verbatim>\<open>uuid.uuid4()\<close>; the generator is outside the program, so
  every identifier is an input of the operation that draws it. The three dictionaries are
  association lists in insertion order, written with \<^const>\<open>AList.update\<close> (a new key goes to
  the end, an old key keeps its place and gets the new value) and read with
  \<^const>\<open>map_of\<close>. The \<^verbatim>\<open>created_at\<close> time stamps are read nowhere and are left out.
  A price is a float that the program only prints: the field holds its printed text.
\<close>

record service =
  svc_id :: string
  svc_name :: string
  duration :: int
  price :: string
  available_slots :: "string list"

datatype status = Confirmed | Cancelled

record booking =
  bk_id :: string
  bk_user_name :: "string option"
  service_id :: string
  date :: "string option"
  time :: "string option"
  status :: status

datatype state = Greeting | Name | Service | Datetime | Confirmation | Completed | Ended

datatype turn = User string | Assistant string

record session =
  sess_id :: string
  state :: state
  user_name :: "string option"
  selected_service :: "service option"
  selected_date :: "string option"
  selected_time :: "string option"
  conversation_history :: "turn list"

type_synonym services = "(string \<times> service) list"
type_synonym bookings = "(string \<times> booking) list"
type_synonym sessions = "(string \<times> session) list"

record store =
  services_db :: services
  bookings_db :: bookings
  sessions_db :: sessions

text \<open>
  What one turn takes from outside the program: the outcome of the \<^verbatim>\<open>try\<close> block of
  \<^verbatim>\<open>extract_datetime\<close> on a text (the two formatted strings, or \<^term>\<open>None\<close> when the parser
  raises), the text \<^verbatim>\<open>str(e)\<close> of the exception it raises on a text, the characters that the
  encoding of \<^verbatim>\<open>sys.stdout\<close> has (under UTF-8 every character of a \<^typ>\<open>string\<close>, under ASCII
  those below \<^verbatim>\<open>0x80\<close>), the formatted date of the day after today, and the identifier that
  \<^verbatim>\<open>uuid.uuid4()\<close> returns if the turn creates a booking.
\<close>

record env =
  try_parse :: "string \<Rightarrow> (string \<times> string) option"
  error_text :: "string \<Rightarrow> string"
  stdout_encodes :: "char \<Rightarrow> bool"
  tomorrow :: string
  uuid4 :: string

datatype exn = KeyError | AttributeError | UnicodeEncodeError

definition Service_new :: "string \<Rightarrow> string \<Rightarrow> int \<Rightarrow> string \<Rightarrow> string list \<Rightarrow> service" where
  "Service_new uuid n d p slots =
     \<lparr>svc_id = uuid, svc_name = n, duration = d, price = p, available_slots = slots\<rparr>"

definition Booking_new ::
  "string \<Rightarrow> string option \<Rightarrow> string \<Rightarrow> string option \<Rightarrow> string option \<Rightarrow> booking" where
  "Booking_new uuid u sid d t =
     \<lparr>bk_id = uuid, bk_user_name = u, service_id = sid, date = d, time = t, status = Confirmed\<rparr>"

definition ConversationSession_new :: "string \<Rightarrow> session" where
  "ConversationSession_new uuid =
     \<lparr>sess_id = uuid, state = Greeting, user_name = None, selected_service = None,
      selected_date = None, selected_time = None, conversation_history = []\<rparr>"

definition initialize_sample_data :: "string \<Rightarrow> string \<Rightarrow> string \<Rightarrow> services" where
  "initialize_sample_data u1 u2 u3 =
     (let haircut = Service_new u1 ''Haircut'' 30 ''25.0''
            [''09:00 AM'', ''10:00 AM'', ''11:00 AM'', ''02:00 PM'', ''03:00 PM'', ''04:00 PM''];
          consultation = Service_new u2 ''Consultation'' 60 ''50.0''
            [''09:00 AM'', ''11:00 AM'', ''02:00 PM'', ''04:00 PM''];
          massage = Service_new u3 ''Massage'' 90 ''80.0'' [''09:00 AM'', ''11:00 AM'', ''02:00 PM'']
      in AList.update (svc_id massage) massage
           (AList.update (svc_id consultation) consultation
              (AList.update (svc_id haircut) haircut [])))"

section \<open>Printing\<close>

fun str_nat :: "nat \<Rightarrow> string" where
  "str_nat n =
     (if n < 10 then [''0123456789'' ! n]
      else str_nat (n div 10) @ [''0123456789'' ! (n mod 10)])"

declare str_nat.simps [simp del]

definition str_int :: "int \<Rightarrow> string" where
  "str_int i = (if i < 0 then ''-'' @ str_nat (nat (- i)) else str_nat (nat i))"

definition str_opt :: "string option \<Rightarrow> string" where
  \<comment> \<open>how an f-string prints a value that is a string or \<^verbatim>\<open>None\<close>\<close>
  "str_opt v = (case v of None \<Rightarrow> ''None'' | Some s \<Rightarrow> s)"

section \<open>Slot availability\<close>

fun is_slot_available :: "bookings \<Rightarrow> string \<Rightarrow> string \<Rightarrow> string \<Rightarrow> bool" where
  "is_slot_available [] sid d t = True"
| "is_slot_available ((k, b) # rest) sid d t =
     (if service_id b = sid \<and> date b = Some d \<and> time b = Some t \<and> status b = Confirmed
      then False
      else is_slot_available rest sid d t)"

definition print_line :: "env \<Rightarrow> string \<Rightarrow> exn option" where
  \<comment> \<open>\<^verbatim>\<open>print\<close> of one string: the stream encodes the line, then the line end, and raises on
      a character its encoding does not have; \<^term>\<open>None\<close> when the call returns\<close>
  "print_line e line =
     (if list_all (stdout_encodes e) (line @ ''\<newline>'') then None else Some UnicodeEncodeError)"

definition extract_datetime :: "env \<Rightarrow> string \<Rightarrow> exn + string \<times> string" where
  \<comment> \<open>the \<^verbatim>\<open>except\<close> branch prints the exception before it builds the fallback, outside any
      \<^verbatim>\<open>try\<close>: what the print raises leaves the function\<close>
  "extract_datetime e text0 =
     (let text = strip text0 in
      case try_parse e text of
        Some (date_str, time_str) \<Rightarrow> Inr (date_str, time_str)
      | None \<Rightarrow>
          (case print_line e (''Date parsing error: '' @ error_text e text) of
             Some x \<Rightarrow> Inl x
           | None \<Rightarrow> Inr (tomorrow e, ''09:00 AM'')))"

section \<open>The replies\<close>

definition msg_goodbye :: string where
  "msg_goodbye = ''Goodbye! Thank you for using JusBook. Have a great day!''"

definition msg_no_bookings :: string where
  "msg_no_bookings = ''You have no active bookings.''"

definition msg_cancelled :: string where
  "msg_cancelled = ''Your bookings have been cancelled successfully.''"

definition msg_nothing_to_cancel :: string where
  "msg_nothing_to_cancel = ''You have no active bookings to cancel.''"

definition msg_nothing_to_update :: string where
  "msg_nothing_to_update = ''You have no bookings to update. Let's create a new booking.''"

definition msg_session_ended :: string where
  "msg_session_ended = ''The session has ended. Please start a new session to continue.''"

definition msg_not_understood :: string where
  "msg_not_understood = ''I'm sorry, I didn't understand. Could you try again?''"

definition msg_welcome :: string where
  "msg_welcome = ''Welcome to JusBook! I'm your AI assistant. What's your name?''"

definition msg_name_again :: string where
  "msg_name_again = ''I didn't catch your name. Could you tell me again?''"

definition msg_datetime_again :: string where
  "msg_datetime_again =
     ''I couldn't understand the date and time. Please try something like 'tomorrow at 2 PM'.''"

definition msg_start_over :: string where
  "msg_start_over = ''No problem! Let's start over. Which service would you like?''"

definition msg_yes_or_no :: string where
  "msg_yes_or_no = ''Please say 'yes' to confirm or 'no' to start over.''"

definition msg_update :: "service \<Rightarrow> string" where
  "msg_update svc =
     ''Your previous booking is cancelled. Let's book a new slot for '' @ svc_name svc
     @ ''. Which date and time do you prefer?''"

definition msg_services :: "string \<Rightarrow> services \<Rightarrow> string" where
  "msg_services n sdb =
     ''Nice to meet you, '' @ n @ ''! Here are our available services:\<newline>''
     @ join ''\<newline>''
         (map (\<lambda>svc. ''- '' @ svc_name svc @ '' ($'' @ price svc @ '', '' @ str_int (duration svc)
                      @ '' min)'') (map snd sdb))
     @ ''\<newline>\<newline>Which service would you like to book?''"

definition msg_service_chosen :: "service \<Rightarrow> string" where
  "msg_service_chosen svc =
     ''Great choice! '' @ svc_name svc @ '' costs $'' @ price svc @ '' and takes ''
     @ str_int (duration svc) @ '' minutes.\<newline>Available slots: ''
     @ join '', '' (available_slots svc)
     @ ''\<newline>What date and time would you prefer? (e.g., 'tomorrow at 2 PM')''"

definition msg_service_unknown :: "services \<Rightarrow> string" where
  "msg_service_unknown sdb =
     ''I didn't recognize that service. Available services: ''
     @ join '', '' (map svc_name (map snd sdb)) @ ''. Which one would you like?''"

definition msg_summary :: "session \<Rightarrow> service \<Rightarrow> string \<Rightarrow> string \<Rightarrow> string" where
  "msg_summary s svc d t =
     ''Perfect! Here's your booking:\<newline>\<newline>''
     @ ''Name: '' @ str_opt (user_name s) @ ''\<newline>''
     @ ''Service: '' @ svc_name svc @ ''\<newline>''
     @ ''Date: '' @ d @ ''\<newline>''
     @ ''Time: '' @ t @ ''\<newline>''
     @ ''Duration: '' @ str_int (duration svc) @ '' minutes\<newline>''
     @ ''Price: $'' @ price svc @ ''\<newline>\<newline>Shall I confirm this booking?''"

definition msg_slot_taken :: "service \<Rightarrow> string" where
  "msg_slot_taken svc =
     ''Sorry, that slot is not available. Please choose from: ''
     @ join '', '' (available_slots svc)"

definition msg_confirmed :: "booking \<Rightarrow> session \<Rightarrow> service \<Rightarrow> string" where
  "msg_confirmed b s svc =
     ''Excellent! Your booking is confirmed!\<newline>Booking ID: '' @ take 8 (bk_id b)
     @ ''\<newline>Service: '' @ svc_name svc
     @ ''\<newline>Date: '' @ str_opt (selected_date s)
     @ ''\<newline>Time: '' @ str_opt (selected_time s)
     @ ''\<newline>Thank you for using JusBook!''"

section \<open>The dialogue\<close>

text \<open>
  A handler mutates the session it is given and, in the confirmation state, the bookings
  dictionary; the model returns the new values together with the outcome, which is the reply
  or the Python exception that ends the turn. Every raise comes before the first mutation of
  its branch, so an outcome \<^term>\<open>Inl e\<close> carries the values unchanged.
\<close>

definition owned :: "session \<Rightarrow> booking \<Rightarrow> bool" where
  \<comment> \<open>\<^verbatim>\<open>b.user_name == session.user_name and b.status == "confirmed"\<close>\<close>
  "owned s b \<longleftrightarrow> bk_user_name b = user_name s \<and> status b = Confirmed"

fun show_loop :: "services \<Rightarrow> booking list \<Rightarrow> string \<Rightarrow> exn + string" where
  "show_loop sdb [] response = Inr response"
| "show_loop sdb (b # bs) response =
     (case map_of sdb (service_id b) of
        None \<Rightarrow> Inl KeyError
      | Some svc \<Rightarrow>
          show_loop sdb bs
            (response @ ''- '' @ svc_name svc @ '' on '' @ str_opt (date b) @ '' at ''
             @ str_opt (time b) @ ''\<newline>''))"

fun cancel_loop :: "session \<Rightarrow> bookings \<Rightarrow> bookings \<times> booking list" where
  \<comment> \<open>the dictionary after the loop, and the list \<^verbatim>\<open>cancelled_bookings\<close>\<close>
  "cancel_loop s [] = ([], [])"
| "cancel_loop s ((k, b) # rest) =
     (let (rest', cancelled) = cancel_loop s rest in
      if owned s b
      then ((k, b\<lparr>status := Cancelled\<rparr>) # rest', b\<lparr>status := Cancelled\<rparr> # cancelled)
      else ((k, b) # rest', cancelled))"

fun update_loop ::
  "services \<Rightarrow> session \<Rightarrow> bookings \<Rightarrow> bookings \<Rightarrow> (bookings \<times> session) \<times> (exn + string)" where
  \<comment> \<open>the third argument holds the entries already passed\<close>
  "update_loop sdb s seen [] = ((seen, s), Inr msg_nothing_to_update)"
| "update_loop sdb s seen ((k, b) # rest) =
     (if owned s b then
        (case map_of sdb (service_id b) of
           None \<Rightarrow> ((seen @ (k, b) # rest, s), Inl KeyError)
         | Some svc \<Rightarrow>
             ((seen @ (k, b\<lparr>status := Cancelled\<rparr>) # rest,
               s\<lparr>selected_service := Some svc, state := Datetime\<rparr>),
              Inr (msg_update svc)))
      else update_loop sdb s (seen @ [(k, b)]) rest)"

definition handle_greeting_state :: "session \<Rightarrow> session \<times> string" where
  "handle_greeting_state s = (s\<lparr>state := Name\<rparr>, msg_welcome)"

definition handle_name_state :: "services \<Rightarrow> session \<Rightarrow> string \<Rightarrow> session \<times> string" where
  "handle_name_state sdb s user_input =
     (case extract_name user_input of
        Some n \<Rightarrow>
          (if n \<noteq> [] then (s\<lparr>user_name := Some n, state := Service\<rparr>, msg_services n sdb)
           else (s, msg_name_again))
      | None \<Rightarrow> (s, msg_name_again))"

definition handle_service_state :: "services \<Rightarrow> session \<Rightarrow> string \<Rightarrow> session \<times> string" where
  "handle_service_state sdb s user_input =
     (case find (\<lambda>svc. sublist (lower (svc_name svc)) (lower user_input)) (map snd sdb) of
        Some svc \<Rightarrow> (s\<lparr>selected_service := Some svc, state := Datetime\<rparr>, msg_service_chosen svc)
      | None \<Rightarrow> (s, msg_service_unknown sdb))"

definition handle_datetime_state ::
  "env \<Rightarrow> bookings \<Rightarrow> session \<Rightarrow> string \<Rightarrow> session \<times> (exn + string)" where
  "handle_datetime_state e bdb s user_input =
     (case extract_datetime e user_input of
        Inl x \<Rightarrow> (s, Inl x)
      | Inr (d, time_slot) \<Rightarrow>
          if d \<noteq> [] \<and> time_slot \<noteq> [] then
            (case selected_service s of
               None \<Rightarrow> (s, Inl AttributeError)
             | Some svc \<Rightarrow>
                 if time_slot \<in> set (available_slots svc) then
                   (if is_slot_available bdb (svc_id svc) d time_slot
                    then (s\<lparr>selected_date := Some d, selected_time := Some time_slot,
                             state := Confirmation\<rparr>,
                          Inr (msg_summary s svc d time_slot))
                    else (s, Inr (msg_slot_taken svc)))
                 else (s, Inr msg_datetime_again))
          else (s, Inr msg_datetime_again))"

definition handle_confirmation_state ::
  "env \<Rightarrow> bookings \<Rightarrow> session \<Rightarrow> string \<Rightarrow> intent \<Rightarrow> (bookings \<times> session) \<times> (exn + string)" where
  "handle_confirmation_state e bdb s user_input intent =
     (if intent = IConfirm then
        (case selected_service s of
           None \<Rightarrow> ((bdb, s), Inl AttributeError)
         | Some svc \<Rightarrow>
             (let b = Booking_new (uuid4 e) (user_name s) (svc_id svc) (selected_date s)
                        (selected_time s)
              in ((AList.update (bk_id b) b bdb, s\<lparr>state := Completed\<rparr>),
                  Inr (msg_confirmed b s svc))))
      else if intent = IDeny then ((bdb, s\<lparr>state := Service\<rparr>), Inr msg_start_over)
      else ((bdb, s), Inr msg_yes_or_no))"

definition get_response_for_state ::
  "env \<Rightarrow> services \<Rightarrow> bookings \<Rightarrow> session \<Rightarrow> string
     \<Rightarrow> (bookings \<times> session) \<times> (exn + string)" where
  "get_response_for_state e sdb bdb s user_input =
     (if any_in GOODBYE_KEYWORDS (lower user_input)
      then ((bdb, s\<lparr>state := Ended\<rparr>), Inr msg_goodbye)
      else let intent = classify user_input in
        if intent = IShowBookings then
          (let user_bookings = filter (owned s) (map snd bdb) in
           if user_bookings \<noteq> []
           then ((bdb, s), show_loop sdb user_bookings ''Here are your current bookings:\<newline>'')
           else ((bdb, s), Inr msg_no_bookings))
        else if intent = ICancel then
          (let (bdb', cancelled_bookings) = cancel_loop s bdb in
           if cancelled_bookings \<noteq> []
           then ((bdb', s\<lparr>state := Greeting\<rparr>), Inr msg_cancelled)
           else ((bdb', s), Inr msg_nothing_to_cancel))
        else if intent = IUpdate then update_loop sdb s [] bdb
        else
          (case state s of
             Greeting \<Rightarrow> (let (s', r) = handle_greeting_state s in ((bdb, s'), Inr r))
           | Name \<Rightarrow> (let (s', r) = handle_name_state sdb s user_input in ((bdb, s'), Inr r))
           | Service \<Rightarrow> (let (s', r) = handle_service_state sdb s user_input in ((bdb, s'), Inr r))
           | Datetime \<Rightarrow> (let (s', r) = handle_datetime_state e bdb s user_input in ((bdb, s'), r))
           | Confirmation \<Rightarrow> handle_confirmation_state e bdb s user_input intent
           | Ended \<Rightarrow> ((bdb, s), Inr msg_session_ended)
           | Completed \<Rightarrow> ((bdb, s), Inr msg_not_understood)))"

section \<open>The two routes\<close>

datatype http_error = NotFound | InternalServerError exn

type_synonym session_data = "string option \<times> string option \<times> string option \<times> string option"

definition start_session :: "string \<Rightarrow> store \<Rightarrow> store \<times> (string \<times> string \<times> state)" where
  \<comment> \<open>the argument is the identifier drawn for the new session\<close>
  "start_session uuid w =
     (let s = ConversationSession_new uuid in
      (w\<lparr>sessions_db := AList.update (sess_id s) s (sessions_db w)\<rparr>,
       (sess_id s, ''Welcome to JusBook! Say Hi'', state s)))"

definition send_message ::
  "env \<Rightarrow> store \<Rightarrow> string \<Rightarrow> string
     \<Rightarrow> store \<times> (http_error + (string \<times> state \<times> session_data))" where
  \<comment> \<open>an exception that leaves \<^verbatim>\<open>get_response_for_state\<close> is answered with status 500, after
      the user's message has been appended to the history\<close>
  "send_message e w session_id message0 =
     (let message = strip message0 in
      if session_id = [] then (w, Inl NotFound)
      else case map_of (sessions_db w) session_id of
        None \<Rightarrow> (w, Inl NotFound)
      | Some s0 \<Rightarrow>
          (let s1 = s0\<lparr>conversation_history := conversation_history s0 @ [User message]\<rparr>;
               ((bdb, s2), outcome) =
                  get_response_for_state e (services_db w) (bookings_db w) s1 message
           in case outcome of
                Inl x \<Rightarrow>
                  (w\<lparr>bookings_db := bdb, sessions_db := AList.update session_id s2 (sessions_db w)\<rparr>,
                   Inl (InternalServerError x))
              | Inr response \<Rightarrow>
                  (let s3 = s2\<lparr>conversation_history :=
                                 conversation_history s2 @ [Assistant response]\<rparr>
                   in (w\<lparr>bookings_db := bdb,
                         sessions_db := AList.update session_id s3 (sessions_db w)\<rparr>,
                       Inr (response, state s3,
                            (user_name s3, map_option svc_name (selected_service s3),
                             selected_date s3, selected_time s3))))))"

datatype event = StartSession string | SendMessage env string string

fun step :: "store \<Rightarrow> event \<Rightarrow> store" where
  "step w (StartSession uuid) = fst (start_session uuid w)"
| "step w (SendMessage e session_id message) = fst (send_message e w session_id message)"

definition run :: "store \<Rightarrow> event list \<Rightarrow> store" where
  \<comment> \<open>the store after a sequence of calls\<close>
  "run w evs = foldl step w evs"

definition initial_store :: "services \<Rightarrow> store" where
  "initial_store sdb = \<lparr>services_db = sdb, bookings_db = [], sessions_db = []\<rparr>"

section \<open>What the specification says, and the scenarios\<close>

text \<open>
  The classifier as the specification words it: the text is put in lower case and trimmed, the
  intents are tried in the fixed priority order, the first one with a keyword inside the text
  is returned, and \<open>unknown\<close> when there is none. The keyword lists are those of the program.
\<close>

definition keywords_of :: "intent \<Rightarrow> string list" where
  "keywords_of i = (case map_of intents i of Some ks \<Rightarrow> ks | None \<Rightarrow> [])"

definition matches :: "intent \<Rightarrow> string \<Rightarrow> bool" where
  "matches i t \<longleftrightarrow> any_in (keywords_of i) t"

definition priority_order :: "intent list" where
  "priority_order =
     [IGreeting, IBooking, IAvailability, ICancel, IUpdate, IShowBookings, IHelp, IConfirm, IDeny]"

definition spec_classify :: "string \<Rightarrow> intent" where
  "spec_classify text =
     (let t = strip (lower text) in
      case find (\<lambda>i. matches i t) priority_order of Some i \<Rightarrow> i | None \<Rightarrow> IUnknown)"

definition cancel_all :: "session \<Rightarrow> bookings \<Rightarrow> bookings" where
  \<comment> \<open>every confirmed booking of the session's user set to cancelled\<close>
  "cancel_all s bdb = map (\<lambda>(k, b). (k, if owned s b then b\<lparr>status := Cancelled\<rparr> else b)) bdb"

text \<open>The invariant behind the bookings' user names.\<close>

definition named :: "bookings \<Rightarrow> bool" where
  "named bdb \<longleftrightarrow> (\<forall>(k, b) \<in> set bdb. bk_user_name b \<noteq> None)"

definition has_name :: "session \<Rightarrow> bool" where
  "has_name s \<longleftrightarrow>
     (state s \<in> {Service, Datetime, Confirmation, Completed} \<longrightarrow> user_name s \<noteq> None)"

definition inv :: "store \<Rightarrow> bool" where
  "inv w \<longleftrightarrow> named (bookings_db w) \<and> (\<forall>(k, s) \<in> set (sessions_db w). has_name s)"

text \<open>
  Concrete values for the scenarios: identifiers as \<^verbatim>\<open>uuid.uuid4()\<close> prints them, the
  sample catalogue, and an environment of 4 November 2026 whose parser reads \<^verbatim>\<open>9:00 AM\<close> as
  nine o'clock today and raises on every other text, with the message of
  \<^verbatim>\<open>dateutil.parser.ParserError\<close> for a text in which it finds no date. Its standard output
  is UTF-8. The second environment differs in its standard output, which is ASCII (a process
  started with \<^verbatim>\<open>PYTHONIOENCODING=ascii\<close>, or in the C locale before Python 3.7).
\<close>

definition uuid_haircut :: string where
  "uuid_haircut = ''6f1c2a9e-0b7d-4c3a-9e21-5d8f4a7b1c02''"

definition uuid_consultation :: string where
  "uuid_consultation = ''a3d94f10-7c55-4e0b-b6a8-02e1c9d47f36''"

definition uuid_massage :: string where
  "uuid_massage = ''c81e728d-9d4c-4f63-8a5b-3b2f0e6d1a94''"

definition uuid_A :: string where
  "uuid_A = ''0b5e7f3a-2c41-4d8e-9f60-7a1c3e5b9d24''"

definition uuid_B :: string where
  "uuid_B = ''e4c2a6b8-13f5-4a7d-8c09-6d2b4f8a0e15''"

definition uuid_b1 :: string where
  "uuid_b1 = ''5a9d3c7e-8b12-4f46-a0d3-9e7c1b5f2a68''"

definition uuid_b2 :: string where
  "uuid_b2 = ''d27f1b4c-6e93-4a58-b1c7-4f0a8d3e6b92''"

definition sample_services :: services where
  "sample_services = initialize_sample_data uuid_haircut uuid_consultation uuid_massage"

definition haircut :: service where
  "haircut = Service_new uuid_haircut ''Haircut'' 30 ''25.0''
     [''09:00 AM'', ''10:00 AM'', ''11:00 AM'', ''02:00 PM'', ''03:00 PM'', ''04:00 PM'']"

definition env_4nov :: "string \<Rightarrow> env" where
  \<comment> \<open>the argument is the identifier the next booking gets\<close>
  "env_4nov u =
     \<lparr>try_parse = (\<lambda>t. if t = ''9:00 AM'' then Some (''2026-11-04'', ''09:00 AM'') else None),
      error_text = (\<lambda>t. ''String does not contain a date: '' @ t),
      stdout_encodes = (\<lambda>c. True),
      tomorrow = ''2026-11-05'', uuid4 = u\<rparr>"

definition env_ascii_stdout :: "string \<Rightarrow> env" where
  "env_ascii_stdout u = (env_4nov u)\<lparr>stdout_encodes := (\<lambda>c. of_char c < (0x80 :: nat))\<rparr>"

definition manana :: string where
  \<comment> \<open>the Spanish word for tomorrow, with U+00F1 as its third letter\<close>
  "manana = ''ma'' @ CHR 0xF1 # ''ana''"

definition booking_alice :: booking where
  "booking_alice = Booking_new uuid_b1 (Some ''Alice'') uuid_haircut (Some ''2026-11-04'')
     (Some ''09:00 AM'')"

definition booking_bob :: booking where
  "booking_bob = Booking_new uuid_b2 (Some ''Bob'') uuid_haircut (Some ''2026-11-04'')
     (Some ''09:00 AM'')"

definition alice_books :: "event list" where
  \<comment> \<open>one session, from the greeting to the confirmed booking\<close>
  "alice_books =
     [StartSession uuid_A,
      SendMessage (env_4nov uuid_b1) uuid_A ''Hi'',
      SendMessage (env_4nov uuid_b1) uuid_A ''my name is Alice'',
      SendMessage (env_4nov uuid_b1) uuid_A ''Haircut'',
      SendMessage (env_4nov uuid_b1) uuid_A ''9:00 AM'',
      SendMessage (env_4nov uuid_b1) uuid_A ''yes'']"

definition both_reach_confirmation :: "event list" where
  \<comment> \<open>two sessions choose the same slot, one turn after the other, and the first confirms\<close>
  "both_reach_confirmation =
     [StartSession uuid_A, StartSession uuid_B,
      SendMessage (env_4nov uuid_b1) uuid_A ''Hi'',
      SendMessage (env_4nov uuid_b1) uuid_A ''my name is Alice'',
      SendMessage (env_4nov uuid_b1) uuid_A ''Haircut'',
      SendMessage (env_4nov uuid_b1) uuid_A ''9:00 AM'',
      SendMessage (env_4nov uuid_b2) uuid_B ''Hi'',
      SendMessage (env_4nov uuid_b2) uuid_B ''my name is Bob'',
      SendMessage (env_4nov uuid_b2) uuid_B ''Haircut'',
      SendMessage (env_4nov uuid_b2) uuid_B ''9:00 AM'',
      SendMessage (env_4nov uuid_b1) uuid_A ''yes'']"

definition alice_chooses_haircut :: "event list" where
  \<comment> \<open>one session, from the greeting to the question for a date and time\<close>
  "alice_chooses_haircut =
     [StartSession uuid_A,
      SendMessage (env_ascii_stdout uuid_b1) uuid_A ''Hi'',
      SendMessage (env_ascii_stdout uuid_b1) uuid_A ''my name is Alice'',
      SendMessage (env_ascii_stdout uuid_b1) uuid_A ''Haircut'']"

definition session_in :: "state \<Rightarrow> session" where
  \<comment> \<open>Alice's session with the haircut chosen, in a given state\<close>
  "session_in st =
     (ConversationSession_new uuid_A)
       \<lparr>state := st, user_name := Some ''Alice'', selected_service := Some haircut\<rparr>"

section \<open>Evaluations shared by the proofs\<close>

lemma no_goodbye:
  "\<not> any_in GOODBYE_KEYWORDS (lower ''xyz123'')"
  "\<not> any_in GOODBYE_KEYWORDS (lower ''asap'')"
  "\<not> any_in GOODBYE_KEYWORDS (lower ''hello'')"
  "\<not> any_in GOODBYE_KEYWORDS (lower ''cancel'')"
  "\<not> any_in GOODBYE_KEYWORDS (lower ''show my bookings'')"
  "\<not> any_in GOODBYE_KEYWORDS (lower ''yes'')"
  by code_simp+

lemma goodbye_texts:
  "any_in GOODBYE_KEYWORDS (lower ''bye'')"
  "any_in GOODBYE_KEYWORDS (lower ''please cancel, goodbye'')"
  by code_simp+

lemma classify_texts:
  "classify ''xyz123'' = IUnknown"
  "classify ''asap'' = IUnknown"
  "classify ''hello'' = IGreeting"
  "classify ''cancel'' = ICancel"
  "classify ''show my bookings'' = IBooking"
  "classify ''yes'' = IConfirm"
  "classify ''please cancel, goodbye'' = ICancel"
  by code_simp+

lemma extract_name_texts:
  "extract_name ''I'm Bob'' = Some ''Bob''"
  "extract_name ''call me Mary Jane'' = Some ''Mary''"
  "extract_name ''xyz123'' = None"
  by code_simp+

lemma session_in_simps [simp]:
  "state (session_in st) = st"
  "user_name (session_in st) = Some ''Alice''"
  "selected_service (session_in st) = Some haircut"
  "selected_date (session_in st) = None"
  "selected_time (session_in st) = None"
  by (simp_all add: session_in_def ConversationSession_new_def)

lemma env_4nov_simps [simp]:
  "try_parse (env_4nov u) t = (if t = ''9:00 AM'' then Some (''2026-11-04'', ''09:00 AM'') else None)"
  "error_text (env_4nov u) t = ''String does not contain a date: '' @ t"
  "stdout_encodes (env_4nov u) c"
  "tomorrow (env_4nov u) = ''2026-11-05''"
  "uuid4 (env_4nov u) = u"
  by (simp_all add: env_4nov_def)

lemma env_ascii_stdout_simps [simp]:
  "try_parse (env_ascii_stdout u) = try_parse (env_4nov u)"
  "error_text (env_ascii_stdout u) = error_text (env_4nov u)"
  "stdout_encodes (env_ascii_stdout u) c \<longleftrightarrow> of_char c < (0x80 :: nat)"
  "tomorrow (env_ascii_stdout u) = tomorrow (env_4nov u)"
  "uuid4 (env_ascii_stdout u) = uuid4 (env_4nov u)"
  by (simp_all add: env_ascii_stdout_def)

lemma print_line_utf8 [simp]: "print_line (env_4nov u) line = None"
  by (simp add: print_line_def list_all_iff)

lemma strip_asap: "strip ''asap'' = ''asap''"
  by code_simp

lemma haircut_simps [simp]:
  "svc_id haircut = uuid_haircut"
  "available_slots haircut =
     [''09:00 AM'', ''10:00 AM'', ''11:00 AM'', ''02:00 PM'', ''03:00 PM'', ''04:00 PM'']"
  by (simp_all add: haircut_def Service_new_def)

lemma alice_books_bookings:
  "bookings_db (run (initial_store sample_services) alice_books) = [(uuid_b1, booking_alice)]"
  by code_simp

section \<open>Intent classification: the priority order\<close>

lemma book_in_show_keywords:
  "sublist ''book'' ''show my bookings''" "sublist ''book'' ''my bookings''"
  "sublist ''book'' ''list bookings''" "sublist ''book'' ''current bookings''"
  by code_simp+

lemma sublist_chain:
  assumes "sublist xs ys" and "sublist ys zs"
  shows "sublist xs zs"
proof -
  from assms obtain a b c d where "ys = a @ xs @ b" and "zs = c @ ys @ d"
    by (auto simp: sublist_def)
  then have "zs = (c @ a) @ xs @ (b @ d)" by simp
  then show ?thesis unfolding sublist_def by blast
qed

lemma show_bookings_shadowed: "matches IShowBookings t \<Longrightarrow> matches IBooking t"
  unfolding matches_def keywords_of_def intents_def any_in_def
  using book_in_show_keywords by (auto intro: sublist_chain)

lemma keywords_of_simps:
  "keywords_of IGreeting = [''hi'', ''hello'', ''hey'', ''good morning'', ''good afternoon'']"
  "keywords_of IBooking = [''book'', ''appointment'', ''schedule'', ''reserve'']"
  "keywords_of IAvailability = [''available'', ''slots'', ''when'', ''time'']"
  "keywords_of ICancel = [''cancel'', ''remove'', ''delete'']"
  "keywords_of IUpdate = [''change'', ''update'', ''reschedule'']"
  "keywords_of IShowBookings =
     [''show my bookings'', ''my bookings'', ''list bookings'', ''current bookings'']"
  "keywords_of IHelp = [''help'', ''assist'', ''what can you do'']"
  "keywords_of IConfirm = [''yes'', ''confirm'', ''ok'', ''sure'', ''correct'']"
  "keywords_of IDeny = [''no'', ''cancel'', ''wrong'', ''incorrect'']"
  by (simp_all add: keywords_of_def intents_def)

lemma classify_loop_intents:
  "classify_loop intents t =
     (if matches IGreeting t then IGreeting else if matches IBooking t then IBooking
      else if matches IAvailability t then IAvailability else if matches ICancel t then ICancel
      else if matches IUpdate t then IUpdate else if matches IShowBookings t then IShowBookings
      else if matches IHelp t then IHelp else if matches IConfirm t then IConfirm
      else if matches IDeny t then IDeny else IUnknown)"
  unfolding matches_def keywords_of_simps by (simp add: intents_def)

lemma classify_never_show_bookings: "classify text \<noteq> IShowBookings"
  using show_bookings_shadowed [of "strip (lower text)"]
  by (simp add: classify_def classify_loop_intents)

text \<open>
  Claim C8, as the program has it. The classifier returns what the specification's wording
  returns: the first intent, in the order greeting, booking, availability, cancel, update,
  show_bookings, help, confirm, deny, with a keyword inside the lower-cased, trimmed text, and
  \<open>unknown\<close> when there is none. A text with a cancel keyword and a deny keyword is classified
  as cancel when no greeting, booking or availability keyword is in it.
\<close>

theorem classify_first_match:
  "classify text = spec_classify text \<and>
   (matches ICancel (strip (lower text)) \<and> matches IDeny (strip (lower text)) \<and>
    \<not> matches IGreeting (strip (lower text)) \<and> \<not> matches IBooking (strip (lower text)) \<and>
    \<not> matches IAvailability (strip (lower text)) \<longrightarrow> classify text = ICancel)"
  by (simp add: classify_def spec_classify_def classify_loop_intents priority_order_def Let_def)

text \<open>
  The theorem at the text \<^verbatim>\<open>no, cancel it\<close>, which holds a cancel and a deny keyword and
  none of an earlier intent.
\<close>

theorem classify_first_match_witness:
  "matches ICancel (strip (lower ''no, cancel it'')) \<and>
   matches IDeny (strip (lower ''no, cancel it'')) \<and>
   \<not> matches IGreeting (strip (lower ''no, cancel it'')) \<and>
   \<not> matches IBooking (strip (lower ''no, cancel it'')) \<and>
   \<not> matches IAvailability (strip (lower ''no, cancel it'')) \<and>
   classify ''no, cancel it'' = ICancel \<and> spec_classify ''no, cancel it'' = ICancel"
proof -
  have h: "matches ICancel (strip (lower ''no, cancel it''))"
    "matches IDeny (strip (lower ''no, cancel it''))"
    "\<not> matches IGreeting (strip (lower ''no, cancel it''))"
    "\<not> matches IBooking (strip (lower ''no, cancel it''))"
    "\<not> matches IAvailability (strip (lower ''no, cancel it''))"
    by code_simp+
  note m = classify_first_match [of "''no, cancel it''"]
  from m h have c: "classify ''no, cancel it'' = ICancel" by blast
  from m c have "spec_classify ''no, cancel it'' = ICancel" by metis
  with h c show ?thesis by blast
qed

text \<open>
  Claim C8 as stated fails: \<^verbatim>\<open>no, cancel my appointment\<close> holds the cancel keyword
  \<^verbatim>\<open>cancel\<close> and the deny keyword \<^verbatim>\<open>no\<close>, and is classified as booking, because
  \<^verbatim>\<open>appointment\<close> is tested first.
\<close>

theorem cancel_and_deny_counterexample:
  "matches ICancel (strip (lower ''no, cancel my appointment'')) \<and>
   matches IDeny (strip (lower ''no, cancel my appointment'')) \<and>
   classify ''no, cancel my appointment'' = IBooking \<and>
   classify ''no, cancel my appointment'' \<noteq> ICancel"
  by code_simp

text \<open>
  Claim C4 fails on the program. Every show_bookings key phrase contains \<^verbatim>\<open>book\<close>, a
  booking keyword that is tested first, so no text is ever classified as show_bookings and the
  branch that lists the bookings is dead. A new session that receives
  \<^verbatim>\<open>show my bookings\<close> is greeted and moves to the name state.
\<close>

theorem show_my_bookings_is_booking:
  "\<not> any_in GOODBYE_KEYWORDS (lower ''show my bookings'') \<and>
   matches IShowBookings (strip (lower ''show my bookings'')) \<and>
   classify ''show my bookings'' = IBooking \<and>
   get_response_for_state (env_4nov uuid_b1) sample_services [] (ConversationSession_new uuid_A)
       ''show my bookings'' =
     (([], (ConversationSession_new uuid_A)\<lparr>state := Name\<rparr>), Inr msg_welcome)"
proof -
  have "matches IShowBookings (strip (lower ''show my bookings''))" by code_simp
  moreover have "state (ConversationSession_new uuid_A) = Greeting"
    by (simp add: ConversationSession_new_def)
  ultimately show ?thesis
    by (simp add: get_response_for_state_def no_goodbye classify_texts handle_greeting_state_def)
qed

section \<open>Name extraction\<close>

text \<open>
  Claim C5, as the program has it. \<^verbatim>\<open>I'm Bob\<close> gives \<^verbatim>\<open>Bob\<close>; \<^verbatim>\<open>call me Mary Jane\<close>
  gives \<^verbatim>\<open>Mary\<close>, the one word the pattern captures; \<^verbatim>\<open>xyz123\<close> gives nothing, and a
  session in the name state that receives it stays there, unchanged, with the re-prompt.
\<close>

theorem name_vectors:
  "extract_name ''I'm Bob'' = Some ''Bob'' \<and>
   extract_name ''call me Mary Jane'' = Some ''Mary'' \<and>
   extract_name ''xyz123'' = None \<and>
   (state s = Name \<longrightarrow>
      get_response_for_state e sdb bdb s ''xyz123'' = ((bdb, s), Inr msg_name_again))"
  by (simp add: extract_name_texts get_response_for_state_def no_goodbye classify_texts
        handle_name_state_def)

text \<open>
  The theorem at Alice's session put in the name state.
\<close>

theorem name_vectors_witness:
  "state (session_in Name) = Name \<and>
   get_response_for_state (env_4nov uuid_b1) sample_services [] (session_in Name) ''xyz123'' =
     (([], session_in Name), Inr msg_name_again)"
  using name_vectors [of "session_in Name" "env_4nov uuid_b1" sample_services "[]"] by simp

text \<open>
  Claim C5 as stated fails at its second vector: the result is not \<^verbatim>\<open>Mary Jane\<close>.
\<close>

theorem mary_jane_counterexample:
  "extract_name ''call me Mary Jane'' \<noteq> Some ''Mary Jane''"
  by (simp add: extract_name_texts)

section \<open>Date and time\<close>

text \<open>
  The one exception that leaves \<^const>\<open>extract_datetime\<close>, and when: the parser has raised and
  the line that reports it has a character that the standard output cannot encode.
\<close>

lemma extract_datetime_raises:
  "extract_datetime e text = Inl x \<longleftrightarrow>
     x = UnicodeEncodeError \<and> try_parse e (strip text) = None \<and>
     \<not> list_all (stdout_encodes e)
         (''Date parsing error: '' @ error_text e (strip text) @ ''\<newline>'')"
proof (cases "try_parse e (strip text)")
  case None
  then show ?thesis by (auto simp: extract_datetime_def print_line_def Let_def)
next
  case (Some r)
  then show ?thesis by (cases r) (simp add: extract_datetime_def Let_def)
qed

text \<open>
  In the datetime state the exception ends the turn: the session and the bookings are as
  before, and there is no reply.
\<close>

lemma datetime_print_raises:
  assumes "state s = Datetime" and "try_parse e (strip text) = None"
      and "print_line e (''Date parsing error: '' @ error_text e (strip text)) = Some x"
      and "\<not> any_in GOODBYE_KEYWORDS (lower text)"
      and "classify text \<notin> {IShowBookings, ICancel, IUpdate}"
  shows "get_response_for_state e sdb bdb s text = ((bdb, s), Inl x)"
  using assms
  by (simp add: get_response_for_state_def handle_datetime_state_def extract_datetime_def)

text \<open>
  Claim C7 fails on the program. The \<^verbatim>\<open>except\<close> branch of \<^const>\<open>extract_datetime\<close> catches
  whatever the parser raises, and prints the exception before it returns the fallback; the
  print is in no \<^verbatim>\<open>try\<close>. Alice's session has reached the datetime state in a process whose
  standard output is ASCII, and her answer is \<^const>\<open>manana\<close>. The parser finds no date
  and raises with the text in its message, the print raises \<^verbatim>\<open>UnicodeEncodeError\<close>, and that
  exception, not the fallback of tomorrow at \<^verbatim>\<open>09:00 AM\<close>, is what \<^const>\<open>extract_datetime\<close>
  gives: it leaves \<^const>\<open>get_response_for_state\<close> and the route answers with status 500,
  the session still in the datetime state with no date and no time. With a standard output
  in UTF-8 the same text gets the fallback.
\<close>

theorem parse_failure_print_raises:
  "map_option (\<lambda>s. (state s, user_name s, map_option svc_id (selected_service s)))
     (map_of (sessions_db (run (initial_store sample_services) alice_chooses_haircut)) uuid_A) =
     Some (Datetime, Some ''Alice'', Some uuid_haircut) \<and>
   try_parse (env_ascii_stdout uuid_b1) (strip manana) = None \<and>
   extract_datetime (env_ascii_stdout uuid_b1) manana = Inl UnicodeEncodeError \<and>
   snd (send_message (env_ascii_stdout uuid_b1)
          (run (initial_store sample_services) alice_chooses_haircut) uuid_A manana) =
     Inl (InternalServerError UnicodeEncodeError) \<and>
   map_option (\<lambda>s. (state s, selected_date s, selected_time s))
     (map_of (sessions_db (fst (send_message (env_ascii_stdout uuid_b1)
          (run (initial_store sample_services) alice_chooses_haircut) uuid_A manana))) uuid_A) =
     Some (Datetime, None, None) \<and>
   extract_datetime (env_4nov uuid_b1) manana = Inr (''2026-11-05'', ''09:00 AM'')"
  by code_simp

text \<open>
  Claim C6, as the program has it. In the datetime state, on a text that is no goodbye and no
  show_bookings, cancel or update intent, a failure of the parser that the \<^verbatim>\<open>except\<close> branch
  can print is not seen by the handler: it gets the fallback slot, tomorrow at
  \<^verbatim>\<open>09:00 AM\<close>. If the selected service offers that slot and it is free, the session
  records it and moves to confirmation; if it is offered and taken, the session stays in
  datetime with the slot-not-available reply; only if it is not offered does the session stay
  in datetime with the generic re-prompt.
\<close>

theorem datetime_parse_failure:
  assumes "state s = Datetime" and "selected_service s = Some svc"
      and "try_parse e (strip text) = None" and "tomorrow e \<noteq> []"
      and "print_line e (''Date parsing error: '' @ error_text e (strip text)) = None"
      and "\<not> any_in GOODBYE_KEYWORDS (lower text)"
      and "classify text \<notin> {IShowBookings, ICancel, IUpdate}"
  shows "get_response_for_state e sdb bdb s text =
     (if ''09:00 AM'' \<in> set (available_slots svc) then
        (if is_slot_available bdb (svc_id svc) (tomorrow e) ''09:00 AM''
         then ((bdb, s\<lparr>selected_date := Some (tomorrow e), selected_time := Some ''09:00 AM'',
                        state := Confirmation\<rparr>),
               Inr (msg_summary s svc (tomorrow e) ''09:00 AM''))
         else ((bdb, s), Inr (msg_slot_taken svc)))
      else ((bdb, s), Inr msg_datetime_again))"
  using assms
  by (simp add: get_response_for_state_def handle_datetime_state_def extract_datetime_def)

text \<open>
  The theorem at Alice's session in the datetime state, with the haircut selected and the text
  \<^verbatim>\<open>asap\<close>.
\<close>

theorem datetime_parse_failure_witness:
  "state (session_in Datetime) = Datetime \<and> selected_service (session_in Datetime) = Some haircut \<and>
   try_parse (env_4nov uuid_b1) (strip ''asap'') = None \<and> tomorrow (env_4nov uuid_b1) \<noteq> [] \<and>
   print_line (env_4nov uuid_b1)
     (''Date parsing error: '' @ error_text (env_4nov uuid_b1) (strip ''asap'')) = None \<and>
   \<not> any_in GOODBYE_KEYWORDS (lower ''asap'') \<and>
   classify ''asap'' \<notin> {IShowBookings, ICancel, IUpdate} \<and>
   get_response_for_state (env_4nov uuid_b1) sample_services [] (session_in Datetime) ''asap'' =
     (([], (session_in Datetime)\<lparr>selected_date := Some ''2026-11-05'',
             selected_time := Some ''09:00 AM'', state := Confirmation\<rparr>),
      Inr (msg_summary (session_in Datetime) haircut ''2026-11-05'' ''09:00 AM''))"
proof -
  have h: "state (session_in Datetime) = Datetime"
    "selected_service (session_in Datetime) = Some haircut"
    "try_parse (env_4nov uuid_b1) (strip ''asap'') = None" "tomorrow (env_4nov uuid_b1) \<noteq> []"
    "print_line (env_4nov uuid_b1)
       (''Date parsing error: '' @ error_text (env_4nov uuid_b1) (strip ''asap'')) = None"
    "\<not> any_in GOODBYE_KEYWORDS (lower ''asap'')"
    "classify ''asap'' \<notin> {IShowBookings, ICancel, IUpdate}"
    by (simp_all add: strip_asap no_goodbye classify_texts)
  from datetime_parse_failure [OF h, of sample_services "[]"] h show ?thesis by simp
qed

text \<open>
  Claim C6 as stated fails there: the parser raises, and the session moves to confirmation
  with \<^verbatim>\<open>09:00 AM\<close> recorded.
\<close>

theorem parse_failure_counterexample:
  "state (session_in Datetime) = Datetime \<and>
   try_parse (env_4nov uuid_b1) (strip ''asap'') = None \<and>
   state (snd (fst (get_response_for_state (env_4nov uuid_b1) sample_services []
                      (session_in Datetime) ''asap''))) = Confirmation \<and>
   selected_time (snd (fst (get_response_for_state (env_4nov uuid_b1) sample_services []
                      (session_in Datetime) ''asap''))) = Some ''09:00 AM''"
  by (simp add: get_response_for_state_def handle_datetime_state_def extract_datetime_def
        strip_asap no_goodbye classify_texts)

section \<open>The global intents\<close>

lemma cancel_loop_fst: "fst (cancel_loop s bdb) = cancel_all s bdb"
  by (induction bdb) (auto simp: cancel_all_def split: prod.splits)

lemma cancel_loop_snd:
  "snd (cancel_loop s bdb) \<noteq> [] \<longleftrightarrow> list_ex (owned s) (map snd bdb)"
  by (induction bdb) (auto split: prod.splits if_splits)

lemma cancel_all_none: "\<not> list_ex (owned s) (map snd bdb) \<Longrightarrow> cancel_all s bdb = bdb"
  by (induction bdb) (auto simp: cancel_all_def)

lemma cancel_all_clears: "\<not> list_ex (owned s) (map snd (cancel_all s bdb))"
  by (induction bdb) (auto simp: cancel_all_def owned_def split: if_splits)

text \<open>
  Claim C9, as the program has it. On a text with no goodbye keyword that is classified as
  cancel, every confirmed booking of the session's user is set to cancelled; if there was one,
  the session moves to greeting with the success reply, otherwise nothing changes and the reply
  says there is nothing to cancel. Afterwards the user has no confirmed booking.
\<close>

theorem cancel_intent:
  assumes "\<not> any_in GOODBYE_KEYWORDS (lower text)" and "classify text = ICancel"
  shows "get_response_for_state e sdb bdb s text =
           (if list_ex (owned s) (map snd bdb)
            then ((cancel_all s bdb, s\<lparr>state := Greeting\<rparr>), Inr msg_cancelled)
            else ((bdb, s), Inr msg_nothing_to_cancel)) \<and>
         \<not> list_ex (owned s) (map snd (fst (fst (get_response_for_state e sdb bdb s text))))"
proof -
  obtain bdb' cs where c: "cancel_loop s bdb = (bdb', cs)" by (cases "cancel_loop s bdb")
  with cancel_loop_fst [of s bdb] cancel_loop_snd [of s bdb]
  have b: "bdb' = cancel_all s bdb" and n: "cs \<noteq> [] \<longleftrightarrow> list_ex (owned s) (map snd bdb)"
    by simp_all
  from assms c b n have eq: "get_response_for_state e sdb bdb s text =
           (if list_ex (owned s) (map snd bdb)
            then ((cancel_all s bdb, s\<lparr>state := Greeting\<rparr>), Inr msg_cancelled)
            else ((bdb, s), Inr msg_nothing_to_cancel))"
    by (simp add: get_response_for_state_def cancel_all_none)
  show ?thesis
  proof (cases "list_ex (owned s) (map snd bdb)")
    case True
    with eq cancel_all_clears [of s bdb] show ?thesis by simp
  next
    case False
    with eq show ?thesis by simp
  qed
qed

text \<open>
  The theorem at Alice's completed session, her booking in the store, and the text
  \<^verbatim>\<open>cancel\<close>.
\<close>

theorem cancel_intent_witness:
  "\<not> any_in GOODBYE_KEYWORDS (lower ''cancel'') \<and> classify ''cancel'' = ICancel \<and>
   get_response_for_state (env_4nov uuid_b2) sample_services [(uuid_b1, booking_alice)]
       (session_in Completed) ''cancel'' =
     (([(uuid_b1, booking_alice\<lparr>status := Cancelled\<rparr>)], (session_in Completed)\<lparr>state := Greeting\<rparr>),
      Inr msg_cancelled)"
proof -
  have h: "\<not> any_in GOODBYE_KEYWORDS (lower ''cancel'')" "classify ''cancel'' = ICancel"
    by (simp_all add: no_goodbye classify_texts)
  have o: "owned (session_in Completed) booking_alice"
    by (simp add: owned_def booking_alice_def Booking_new_def)
  from cancel_intent [OF h, of "env_4nov uuid_b2" sample_services "[(uuid_b1, booking_alice)]"
      "session_in Completed"] o h
  show ?thesis by (simp add: cancel_all_def)
qed

text \<open>
  Claim C9 as stated fails on a text that is classified as cancel and holds a goodbye keyword:
  the goodbye test comes first, the session ends and the booking stays confirmed.
\<close>

theorem cancel_goodbye_counterexample:
  "classify ''please cancel, goodbye'' = ICancel \<and>
   owned (session_in Completed) booking_alice \<and>
   get_response_for_state (env_4nov uuid_b2) sample_services [(uuid_b1, booking_alice)]
       (session_in Completed) ''please cancel, goodbye'' =
     (([(uuid_b1, booking_alice)], (session_in Completed)\<lparr>state := Ended\<rparr>), Inr msg_goodbye)"
  by (simp add: get_response_for_state_def goodbye_texts classify_texts owned_def
        booking_alice_def Booking_new_def)

text \<open>
  Claim C3, as the program has it. A completed or ended session that receives a text with no
  goodbye keyword, not classified as cancel or update, is left as it is, and so are the
  bookings; in the ended state the reply is then the fixed one, unless the text is classified
  as show_bookings. A text with a goodbye keyword puts any session, a completed one too, in the
  ended state with the farewell.
\<close>

theorem terminal_states:
  "(state s \<in> {Completed, Ended} \<and> \<not> any_in GOODBYE_KEYWORDS (lower text) \<and>
    classify text \<notin> {ICancel, IUpdate} \<longrightarrow>
      fst (get_response_for_state e sdb bdb s text) = (bdb, s)) \<and>
   (state s = Ended \<and> \<not> any_in GOODBYE_KEYWORDS (lower text) \<and>
    classify text \<notin> {IShowBookings, ICancel, IUpdate} \<longrightarrow>
      snd (get_response_for_state e sdb bdb s text) = Inr msg_session_ended) \<and>
   (any_in GOODBYE_KEYWORDS (lower text) \<longrightarrow>
      get_response_for_state e sdb bdb s text = ((bdb, s\<lparr>state := Ended\<rparr>), Inr msg_goodbye))"
  by (auto simp: get_response_for_state_def Let_def)

text \<open>
  The theorem at Alice's ended session with the text \<^verbatim>\<open>hello\<close>, and at her completed
  session with the text \<^verbatim>\<open>bye\<close>.
\<close>

theorem terminal_states_witness:
  "state (session_in Ended) \<in> {Completed, Ended} \<and> state (session_in Ended) = Ended \<and>
   \<not> any_in GOODBYE_KEYWORDS (lower ''hello'') \<and>
   classify ''hello'' \<notin> {IShowBookings, ICancel, IUpdate} \<and>
   get_response_for_state (env_4nov uuid_b2) sample_services [(uuid_b1, booking_alice)]
       (session_in Ended) ''hello'' =
     (([(uuid_b1, booking_alice)], session_in Ended), Inr msg_session_ended) \<and>
   any_in GOODBYE_KEYWORDS (lower ''bye'') \<and>
   get_response_for_state (env_4nov uuid_b2) sample_services [(uuid_b1, booking_alice)]
       (session_in Completed) ''bye'' =
     (([(uuid_b1, booking_alice)], (session_in Completed)\<lparr>state := Ended\<rparr>), Inr msg_goodbye)"
proof -
  have h: "state (session_in Ended) \<in> {Completed, Ended}" "state (session_in Ended) = Ended"
    "\<not> any_in GOODBYE_KEYWORDS (lower ''hello'')"
    "classify ''hello'' \<notin> {IShowBookings, ICancel, IUpdate}"
    "classify ''hello'' \<notin> {ICancel, IUpdate}"
    "any_in GOODBYE_KEYWORDS (lower ''bye'')"
    by (simp_all add: no_goodbye classify_texts goodbye_texts)
  note a = terminal_states [of "session_in Ended" "''hello''" "env_4nov uuid_b2" sample_services
      "[(uuid_b1, booking_alice)]"]
  note b = terminal_states [of "session_in Completed" "''bye''" "env_4nov uuid_b2" sample_services
      "[(uuid_b1, booking_alice)]"]
  from a h have
    "fst (get_response_for_state (env_4nov uuid_b2) sample_services [(uuid_b1, booking_alice)]
       (session_in Ended) ''hello'') = ([(uuid_b1, booking_alice)], session_in Ended)"
    "snd (get_response_for_state (env_4nov uuid_b2) sample_services [(uuid_b1, booking_alice)]
       (session_in Ended) ''hello'') = Inr msg_session_ended"
    by blast+
  then have
    "get_response_for_state (env_4nov uuid_b2) sample_services [(uuid_b1, booking_alice)]
       (session_in Ended) ''hello'' =
     (([(uuid_b1, booking_alice)], session_in Ended), Inr msg_session_ended)"
    by (simp add: prod_eq_iff)
  moreover from b h have
    "get_response_for_state (env_4nov uuid_b2) sample_services [(uuid_b1, booking_alice)]
       (session_in Completed) ''bye'' =
     (([(uuid_b1, booking_alice)], (session_in Completed)\<lparr>state := Ended\<rparr>), Inr msg_goodbye)"
    by blast
  ultimately show ?thesis using h by blast
qed

text \<open>
  Claim C3 as stated fails: a completed session that receives \<^verbatim>\<open>bye\<close> becomes ended.
\<close>

theorem completed_goodbye_counterexample:
  "state (session_in Completed) = Completed \<and>
   state (snd (fst (get_response_for_state (env_4nov uuid_b2) sample_services
      [(uuid_b1, booking_alice)] (session_in Completed) ''bye''))) = Ended"
  by (simp add: get_response_for_state_def goodbye_texts)

section \<open>Slot exclusivity\<close>

text \<open>
  Claim C1 fails on the program. Availability is tested when the slot is chosen and not
  again when it is confirmed: two sessions choose the same free slot in turn and both say yes.
  The store then holds two confirmed bookings, under different keys, for the same service,
  date and time.
\<close>

theorem double_booking:
  "bookings_db (run (initial_store sample_services)
      (both_reach_confirmation @ [SendMessage (env_4nov uuid_b2) uuid_B ''yes''])) =
     [(uuid_b1, booking_alice), (uuid_b2, booking_bob)] \<and>
   uuid_b1 \<noteq> uuid_b2 \<and>
   status booking_alice = Confirmed \<and> status booking_bob = Confirmed \<and>
   service_id booking_alice = service_id booking_bob \<and>
   date booking_alice = date booking_bob \<and> time booking_alice = time booking_bob"
  by code_simp

text \<open>
  Claim C2 fails on the program, by the same missing test. After the first session has
  confirmed, the second is in the confirmation state for a slot that is no longer available;
  its \<^verbatim>\<open>yes\<close> is answered with the confirmation, the session becomes completed and a second
  booking is stored.
\<close>

theorem confirm_ignores_conflict:
  "bookings_db (run (initial_store sample_services) both_reach_confirmation) =
     [(uuid_b1, booking_alice)] \<and>
   map_option (\<lambda>s. (state s, map_option svc_id (selected_service s), selected_date s,
                     selected_time s))
     (map_of (sessions_db (run (initial_store sample_services) both_reach_confirmation)) uuid_B) =
     Some (Confirmation, Some uuid_haircut, Some ''2026-11-04'', Some ''09:00 AM'') \<and>
   \<not> is_slot_available [(uuid_b1, booking_alice)] uuid_haircut ''2026-11-04'' ''09:00 AM'' \<and>
   classify ''yes'' = IConfirm \<and>
   map_sum id (\<lambda>(r, st, d). st)
     (snd (send_message (env_4nov uuid_b2)
             (run (initial_store sample_services) both_reach_confirmation) uuid_B ''yes'')) =
     Inr Completed \<and>
   bookings_db (fst (send_message (env_4nov uuid_b2)
             (run (initial_store sample_services) both_reach_confirmation) uuid_B ''yes'')) =
     [(uuid_b1, booking_alice), (uuid_b2, booking_bob)]"
  by code_simp

section \<open>Every booking has a user name\<close>

lemma set_update_subset: "set (AList.update k v al) \<subseteq> insert (k, v) (set al)"
  by (induction al) auto

lemma update_all:
  assumes "\<forall>(k, v) \<in> set al. P v" and "P v'"
  shows "\<forall>(k, v) \<in> set (AList.update k' v' al). P v"
  using assms set_update_subset [of k' v' al] by auto

lemma named_update: "named bdb \<Longrightarrow> bk_user_name b \<noteq> None \<Longrightarrow> named (AList.update k b bdb)"
  unfolding named_def by (rule update_all)

lemma named_Cons: "named ((k, b) # bdb) \<longleftrightarrow> bk_user_name b \<noteq> None \<and> named bdb"
  by (simp add: named_def)

lemma named_append: "named (xs @ ys) \<longleftrightarrow> named xs \<and> named ys"
  by (simp add: named_def ball_Un)

lemma cancel_loop_named: "named bdb \<Longrightarrow> named (fst (cancel_loop s bdb))"
  by (induction bdb) (auto simp: named_Cons split: prod.splits)

lemma update_loop_inv:
  assumes "update_loop sdb s seen bdb = ((bdb', s'), r)"
      and "named seen" and "named bdb" and "has_name s"
  shows "named bdb' \<and> has_name s'"
  using assms
proof (induction bdb arbitrary: seen)
  case Nil
  then show ?case by simp
next
  case (Cons kb bdb)
  obtain k b where kb: "kb = (k, b)" by (cases kb)
  show ?case
  proof (cases "owned s b")
    case True
    with Cons.prems kb show ?thesis
      by (auto simp: named_Cons named_append named_def[of "[]"] has_name_def owned_def split: option.splits)
  next
    case False
    with Cons.prems kb have "update_loop sdb s (seen @ [(k, b)]) bdb = ((bdb', s'), r)"
      by simp
    moreover from Cons.prems kb have "named (seen @ [(k, b)])" "named bdb"
      by (simp_all add: named_Cons named_append named_def[of "[]"])
    ultimately show ?thesis using Cons.IH Cons.prems(4) by blast
  qed
qed

lemma handle_name_state_inv:
  "has_name s \<Longrightarrow> has_name (fst (handle_name_state sdb s text))"
  by (auto simp: handle_name_state_def has_name_def split: option.splits)

lemma handle_service_state_inv:
  "state s = Service \<Longrightarrow> has_name s \<Longrightarrow> has_name (fst (handle_service_state sdb s text))"
  by (auto simp: handle_service_state_def has_name_def split: option.splits)

lemma handle_datetime_state_inv:
  "state s = Datetime \<Longrightarrow> has_name s \<Longrightarrow> has_name (fst (handle_datetime_state e bdb s text))"
  by (auto simp: handle_datetime_state_def has_name_def Let_def
        split: option.splits prod.splits sum.splits)

lemma handle_confirmation_state_inv:
  assumes "handle_confirmation_state e bdb s text i = ((bdb', s'), r)"
      and "state s = Confirmation" and "named bdb" and "has_name s"
  shows "named bdb' \<and> has_name s'"
proof -
  from assms(2,4) have n: "user_name s \<noteq> None" by (simp add: has_name_def)
  show ?thesis
  proof (cases "selected_service s")
    case None
    with assms show ?thesis
      by (auto simp: handle_confirmation_state_def has_name_def split: if_splits)
  next
    case (Some svc)
    have "named (AList.update (uuid4 e)
            (Booking_new (uuid4 e) (user_name s) (svc_id svc) (selected_date s) (selected_time s)) bdb)"
      using assms(3) n by (intro named_update) (simp_all add: Booking_new_def)
    with Some assms n show ?thesis
      by (auto simp: handle_confirmation_state_def has_name_def Let_def Booking_new_def
               split: if_splits)
  qed
qed

lemma get_response_for_state_inv:
  assumes "get_response_for_state e sdb bdb s text = ((bdb', s'), r)"
      and "named bdb" and "has_name s"
  shows "named bdb' \<and> has_name s'"
proof (cases "any_in GOODBYE_KEYWORDS (lower text)")
  case True
  with assms show ?thesis by (auto simp: get_response_for_state_def has_name_def)
next
  case bye: False
  consider (show_b) "classify text = IShowBookings" | (cancel) "classify text = ICancel"
    | (upd) "classify text = IUpdate"
    | (other) "classify text \<notin> {IShowBookings, ICancel, IUpdate}" by auto
  then show ?thesis
  proof cases
    case show_b
    with bye assms show ?thesis
      by (auto simp: get_response_for_state_def Let_def split: if_splits)
  next
    case cancel
    with bye assms cancel_loop_named [OF assms(2), of s] show ?thesis
      by (auto simp: get_response_for_state_def Let_def has_name_def split: if_splits prod.splits)
  next
    case upd
    with bye assms have "update_loop sdb s [] bdb = ((bdb', s'), r)"
      by (simp add: get_response_for_state_def)
    from update_loop_inv [OF this _ assms(2,3)] show ?thesis by (simp add: named_def)
  next
    case other
    show ?thesis
    proof (cases "state s")
      case Greeting
      with other bye assms show ?thesis
        by (auto simp: get_response_for_state_def handle_greeting_state_def has_name_def)
    next
      case Name
      with other bye assms handle_name_state_inv [OF assms(3), of sdb "text"] show ?thesis
        by (auto simp: get_response_for_state_def split: prod.splits)
    next
      case Service
      with other bye assms handle_service_state_inv [OF Service assms(3), of sdb "text"] show ?thesis
        by (auto simp: get_response_for_state_def split: prod.splits)
    next
      case Datetime
      with other bye assms handle_datetime_state_inv [OF Datetime assms(3), of e bdb "text"]
      show ?thesis
        by (auto simp: get_response_for_state_def split: prod.splits)
    next
      case Confirmation
      with other bye assms have
        "handle_confirmation_state e bdb s text (classify text) = ((bdb', s'), r)"
        by (simp add: get_response_for_state_def)
      from handle_confirmation_state_inv [OF this Confirmation assms(2,3)] show ?thesis .
    next
      case Completed
      with other bye assms show ?thesis by (auto simp: get_response_for_state_def)
    next
      case Ended
      with other bye assms show ?thesis by (auto simp: get_response_for_state_def)
    qed
  qed
qed

lemma has_name_history [simp]: "has_name (s\<lparr>conversation_history := h\<rparr>) = has_name s"
  by (simp add: has_name_def)

lemma send_message_inv:
  assumes "inv w"
  shows "inv (fst (send_message e w session_id message))"
proof (cases "session_id = [] \<or> map_of (sessions_db w) session_id = None")
  case True
  with assms show ?thesis by (auto simp: send_message_def Let_def)
next
  case False
  then obtain s0 where s0: "map_of (sessions_db w) session_id = Some s0" and ne: "session_id \<noteq> []"
    by auto
  define s1 where "s1 = s0\<lparr>conversation_history := conversation_history s0 @ [User (strip message)]\<rparr>"
  obtain bdb s2 outcome where
    g: "get_response_for_state e (services_db w) (bookings_db w) s1 (strip message) = ((bdb, s2), outcome)"
    by (metis prod.exhaust)
  from s0 have "(session_id, s0) \<in> set (sessions_db w)" by (rule map_of_SomeD)
  with assms have "has_name s1" by (auto simp: inv_def s1_def)
  with get_response_for_state_inv [OF g] assms have n: "named bdb" and h: "has_name s2"
    by (simp_all add: inv_def)
  from assms have all: "\<forall>(k, s) \<in> set (sessions_db w). has_name s" by (simp add: inv_def)
  have u: "\<forall>(k, s) \<in> set (AList.update session_id s' (sessions_db w)). has_name s"
    if "has_name s'" for s'
    using all that by (rule update_all)
  have u2: "\<forall>(k, s) \<in> set (AList.update session_id s2 (sessions_db w)). has_name s"
    using h by (rule u)
  have u3: "\<forall>(k, s) \<in> set (AList.update session_id
               (s2\<lparr>conversation_history := hh\<rparr>) (sessions_db w)). has_name s" for hh
    using h by (intro u) simp
  from n u2 u3 s0 ne g show ?thesis
    by (cases outcome) (simp_all add: send_message_def inv_def Let_def s1_def)
qed

lemma start_session_inv: "inv w \<Longrightarrow> inv (fst (start_session uuid w))"
proof -
  assume a: "inv w"
  have "has_name (ConversationSession_new uuid)"
    by (simp add: has_name_def ConversationSession_new_def)
  with a have "\<forall>(k, s) \<in> set (AList.update uuid (ConversationSession_new uuid) (sessions_db w)). has_name s"
    by (intro update_all) (simp_all add: inv_def)
  with a show ?thesis
    by (simp add: start_session_def inv_def Let_def ConversationSession_new_def)
qed

lemma step_inv: "inv w \<Longrightarrow> inv (step w ev)"
  by (cases ev) (simp_all add: send_message_inv start_session_inv)

lemma run_inv: "inv w \<Longrightarrow> inv (run w evs)"
  unfolding run_def by (induction evs arbitrary: w) (simp_all add: step_inv)

text \<open>
  Claim C10. After any sequence of calls that starts from a store with no session and no
  booking, every booking in the store has a user name, and so has every session in the
  confirmation state, the only place where bookings are made.
\<close>

theorem bookings_have_user_name:
  "(\<forall>(k, b) \<in> set (bookings_db (run (initial_store sdb) evs)). bk_user_name b \<noteq> None) \<and>
   (\<forall>(k, s) \<in> set (sessions_db (run (initial_store sdb) evs)).
      state s = Confirmation \<longrightarrow> user_name s \<noteq> None)"
proof -
  have "inv (initial_store sdb)" by (simp add: inv_def named_def initial_store_def)
  then have "inv (run (initial_store sdb) evs)" by (rule run_inv)
  then show ?thesis by (auto simp: inv_def named_def has_name_def)
qed

text \<open>
  The theorem at the booking Alice makes, and at the run in which Bob's session waits in the
  confirmation state.
\<close>

theorem bookings_have_user_name_witness:
  "(uuid_b1, booking_alice) \<in> set (bookings_db (run (initial_store sample_services) alice_books))
   \<and> bk_user_name booking_alice \<noteq> None \<and>
   (\<exists>k s. (k, s) \<in> set (sessions_db (run (initial_store sample_services) both_reach_confirmation))
      \<and> state s = Confirmation \<and> user_name s \<noteq> None)"
proof -
  have m: "(uuid_b1, booking_alice) \<in>
             set (bookings_db (run (initial_store sample_services) alice_books))"
    by (simp add: alice_books_bookings)
  have "list_ex (\<lambda>(k, s). state s = Confirmation)
          (sessions_db (run (initial_store sample_services) both_reach_confirmation))"
    by code_simp
  then obtain k s where
    c: "(k, s) \<in> set (sessions_db (run (initial_store sample_services) both_reach_confirmation))"
      "state s = Confirmation"
    by (auto simp: list_ex_iff)
  from bookings_have_user_name [of sample_services alice_books] m
  have "bk_user_name booking_alice \<noteq> None" by blast
  moreover from bookings_have_user_name [of sample_services both_reach_confirmation] c
  have "user_name s \<noteq> None" by blast
  ultimately show ?thesis using m c by blast
qed

end
